theory Spec2Isabelle
  imports Main "HOL-Library.Char_ord" "HOL-Library.List_Lexorder"
begin

section \<open>Python values, dictionaries and exceptions\<close>

text \<open>
  The values that occur in credential payloads and DynamoDB items: strings, integers
  and nested dictionaries. A Python \<open>dict\<close> keeps insertion order, so it is an
  association list; assigning to an existing key keeps the key's position, assigning
  to a new key appends it.
\<close>

datatype pyval = PStr string | PInt int | PDict "(string \<times> pyval) list"

type_synonym pydict = "(string \<times> pyval) list"

datatype error =
    TypeError string
  | KeyError string
  | ValueError string
  | AttributeError string
  | SyntaxError
  | ResourceExistsException
  | ResourceNotFoundException
  | InvalidNextTokenException
  | Exception string

fun dict_setitem :: "pydict \<Rightarrow> string \<Rightarrow> pyval \<Rightarrow> pydict" where
  "dict_setitem [] k v = [(k, v)]"
| "dict_setitem ((k', v') # d) k v =
     (if k' = k then (k, v) # d else (k', v') # dict_setitem d k v)"

text \<open>\<open>obj[k] = v\<close>: item assignment raises \<open>TypeError\<close> on a string or an integer.\<close>

fun setitem :: "pyval \<Rightarrow> string \<Rightarrow> pyval \<Rightarrow> error + pyval" where
  "setitem (PDict d) k v = Inr (PDict (dict_setitem d k v))"
| "setitem (PStr s) k v = Inl (TypeError ''object does not support item assignment'')"
| "setitem (PInt i) k v = Inl (TypeError ''object does not support item assignment'')"

text \<open>\<open>obj[k]\<close>: a missing key raises \<open>KeyError\<close>; a string or an integer indexed by a
  string raises \<open>TypeError\<close>.\<close>

fun getitem :: "pyval \<Rightarrow> string \<Rightarrow> error + pyval" where
  "getitem (PDict d) k = (case map_of d k of None \<Rightarrow> Inl (KeyError k) | Some v \<Rightarrow> Inr v)"
| "getitem (PStr s) k = Inl (TypeError ''indices must be integers'')"
| "getitem (PInt i) k = Inl (TypeError ''object is not subscriptable'')"

text \<open>
  The builtins \<open>str\<close>, \<open>eval\<close> and \<open>int\<close> belong to the Python runtime, not to the
  repository: they are parameters of the model.
\<close>

record runtime =
  py_str :: "pyval \<Rightarrow> string"
  py_eval :: "string \<Rightarrow> error + pyval"
  py_int :: "pyval \<Rightarrow> error + int"

text \<open>\<open>str.lower()\<close> on ASCII text.\<close>

definition char_lower :: "char \<Rightarrow> char" where
  "char_lower c =
     (if CHR ''A'' \<le> c \<and> c \<le> CHR ''Z'' then char_of (of_char c + (32 :: nat)) else c)"

definition lower :: "string \<Rightarrow> string" where
  "lower s = map char_lower s"

text \<open>\<open>s.split(sep)\<close> for a one-character separator: always at least one field.\<close>

fun split :: "char \<Rightarrow> string \<Rightarrow> string list" where
  "split sep [] = [ [] ]"
| "split sep (c # cs) =
     (if c = sep then [] # split sep cs
      else (case split sep cs of
              [] \<Rightarrow> [ [c] ]
            | f # fs \<Rightarrow> (c # f) # fs))"

section \<open>The secret store\<close>

text \<open>
  The backend is the boto3 Secrets Manager client, which is outside the repository;
  its four operations follow the backend contract of the specification. The calls
  the module makes and the pages the backend answers with:
\<close>

datatype backend_call =
    CreateSecret string string
  | GetSecretValue string
  | UpdateSecret string string
  | ListSecrets "nat option"

record page =
  SecretList :: "string list"
  NextToken :: "nat option"

text \<open>
  The state the module works on: the backend (\<open>secrets\<close>, \<open>page_size\<close>, \<open>calls\<close>),
  the fields of the \<open>credentials\<close> object (\<open>self_user\<close>, \<open>self_key\<close>), the clock
  read by \<open>datetime.now()\<close> (the \<open>ticks\<close>-th reading is \<open>clock ticks\<close>) and the lines
  printed so far.
\<close>

record world =
  secrets :: "(string \<times> string) list"
  page_size :: nat
  calls :: "backend_call list"
  self_user :: string
  self_key :: "string option"
  clock :: "nat \<Rightarrow> string"
  ticks :: nat
  stdout :: "string list"

definition log_call :: "backend_call \<Rightarrow> world \<Rightarrow> world" where
  "log_call c w = w\<lparr>calls := calls w @ [c]\<rparr>"

text \<open>
  Modelled from the spec: \<open>create(id, value) -> ok | AlreadyExists\<close>. A new secret
  goes to the end of the listing. Every backend call is recorded in \<open>calls\<close>,
  failed ones too.
\<close>

definition create_secret :: "world \<Rightarrow> string \<Rightarrow> string \<Rightarrow> (error + unit) \<times> world" where
  "create_secret w name s =
     (let w1 = log_call (CreateSecret name s) w in
      if name \<in> set (map fst (secrets w1)) then (Inl ResourceExistsException, w1)
      else (Inr (), w1\<lparr>secrets := secrets w1 @ [(name, s)]\<rparr>))"

text \<open>Modelled from the spec: \<open>read(id) -> value | NotFound\<close>.\<close>

definition get_secret_value :: "world \<Rightarrow> string \<Rightarrow> (error + string) \<times> world" where
  "get_secret_value w name =
     (let w1 = log_call (GetSecretValue name) w in
      case map_of (secrets w1) name of
        None \<Rightarrow> (Inl ResourceNotFoundException, w1)
      | Some s \<Rightarrow> (Inr s, w1))"

text \<open>Modelled from the spec: \<open>update(id, value) -> ok | NotFound\<close>.\<close>

definition replace_secret :: "string \<Rightarrow> string \<Rightarrow> (string \<times> string) list \<Rightarrow> (string \<times> string) list" where
  "replace_secret name s xs = map (\<lambda>(k, v). if k = name then (k, s) else (k, v)) xs"

definition update_secret :: "world \<Rightarrow> string \<Rightarrow> string \<Rightarrow> (error + unit) \<times> world" where
  "update_secret w name s =
     (let w1 = log_call (UpdateSecret name s) w in
      if name \<in> set (map fst (secrets w1))
      then (Inr (), w1\<lparr>secrets := replace_secret name s (secrets w1)\<rparr>)
      else (Inl ResourceNotFoundException, w1))"

text \<open>
  Modelled from the spec: \<open>list() -> sequence of id\<close>, paginated. A page holds
  \<open>max 1 page_size\<close> identifiers and carries a continuation token exactly when more
  identifiers follow; a token is the offset of the next page in the listing, and an
  offset past the listing is refused.
\<close>

definition list_secrets :: "world \<Rightarrow> nat option \<Rightarrow> (error + page) \<times> world" where
  "list_secrets w tok =
     (let w1 = log_call (ListSecrets tok) w;
          names = map fst (secrets w1);
          n = max 1 (page_size w1);
          off = (case tok of None \<Rightarrow> 0 | Some t \<Rightarrow> t)
      in if tok \<noteq> None \<and> length names \<le> off then (Inl InvalidNextTokenException, w1)
         else (Inr \<lparr>SecretList = take n (drop off names),
                    NextToken = (if off + n < length names then Some (off + n) else None)\<rparr>,
               w1))"

section \<open>The credentials class\<close>

definition print :: "string \<Rightarrow> world \<Rightarrow> world" where
  "print line w = w\<lparr>stdout := stdout w @ [line]\<rparr>"

text \<open>\<open>str(datetime.now())\<close>: reads the clock, which advances.\<close>

definition datetime_now :: "world \<Rightarrow> string \<times> world" where
  "datetime_now w = (clock w (ticks w), w\<lparr>ticks := Suc (ticks w)\<rparr>)"

text \<open>The f-string \<open>f'{account}/{protocol}/{name}'\<close>.\<close>

definition secret_id :: "string \<Rightarrow> string \<Rightarrow> string \<Rightarrow> string" where
  "secret_id account protocol name = account @ ''/'' @ protocol @ ''/'' @ name"

text \<open>
  \<open>prepare\<close>: prints the identifier when all three fields are passed (no caller in the
  class passes them), then checks that the payload is a dictionary.
\<close>

definition prepare ::
  "world \<Rightarrow> string option \<Rightarrow> string option \<Rightarrow> string option \<Rightarrow> pyval \<Rightarrow> (error + unit) \<times> world" where
  "prepare w account protocol name payload =
     (let w1 = (case (account, protocol, name) of
                  (Some a, Some p, Some n) \<Rightarrow>
                    if a \<noteq> [] \<and> p \<noteq> [] \<and> n \<noteq> []
                    then print (''StringId: '' @ secret_id a p n) w else w
                | _ \<Rightarrow> w)
      in case payload of
           PDict d \<Rightarrow> (Inr (), w1)
         | _ \<Rightarrow> (Inl (TypeError ''Please pass payload as a dictionary''), w1))"

text \<open>
  The two assignments \<open>payload['last_modified_by'] = self.user\<close> and
  \<open>payload['last_modified_time'] = str(datetime.now())\<close>. The payload is mutated in
  place, so the stamped payload is returned with the state; when the second
  assignment is not reached the clock is not read.
\<close>

definition stamp :: "world \<Rightarrow> pyval \<Rightarrow> (error + pyval) \<times> world" where
  "stamp w payload =
     (case setitem payload ''last_modified_by'' (PStr (self_user w)) of
        Inl e \<Rightarrow> (Inl e, w)
      | Inr p1 \<Rightarrow>
          (let (t, w1) = datetime_now w in
           case setitem p1 ''last_modified_time'' (PStr t) of
             Inl e \<Rightarrow> (Inl e, w1)
           | Inr p2 \<Rightarrow> (Inr p2, w1)))"

text \<open>
  \<open>add\<close>, \<open>update\<close>: the result is the outcome, the payload object as the call
  leaves it (the caller's dictionary is mutated in place), and the state.
\<close>

definition add ::
  "runtime \<Rightarrow> world \<Rightarrow> string \<Rightarrow> string \<Rightarrow> string \<Rightarrow> pyval \<Rightarrow> (error + unit) \<times> pyval \<times> world" where
  "add rt w account protocol name payload =
     (let k = secret_id (lower account) (lower protocol) (lower name);
          w1 = w\<lparr>self_key := Some k\<rparr>
      in case prepare w1 None None None payload of
           (Inl e, w2) \<Rightarrow> (Inl e, payload, w2)
         | (Inr u, w2) \<Rightarrow>
             (case stamp w2 payload of
                (Inl e, w3) \<Rightarrow> (Inl e, payload, w3)
              | (Inr p, w3) \<Rightarrow>
                  (case create_secret w3 k (py_str rt p) of
                     (Inl e, w4) \<Rightarrow> (Inl e, p, w4)
                   | (Inr u', w4) \<Rightarrow> (Inr (), p, print (''Added: '' @ k) w4))))"

definition update ::
  "runtime \<Rightarrow> world \<Rightarrow> string \<Rightarrow> string \<Rightarrow> string \<Rightarrow> pyval \<Rightarrow> (error + unit) \<times> pyval \<times> world" where
  "update rt w account protocol name payload =
     (let k = secret_id account protocol name;
          w1 = w\<lparr>self_key := Some k\<rparr>
      in case stamp w1 payload of
           (Inl e, w2) \<Rightarrow> (Inl e, payload, w2)
         | (Inr p, w2) \<Rightarrow>
             (case prepare w2 None None None p of
                (Inl e, w3) \<Rightarrow> (Inl e, p, w3)
              | (Inr u, w3) \<Rightarrow>
                  (case update_secret w3 k (py_str rt p) of
                     (Inl e, w4) \<Rightarrow> (Inl e, p, w4)
                   | (Inr u', w4) \<Rightarrow> (Inr (), p, print (''Updated: '' @ k) w4))))"

definition clear :: "world \<Rightarrow> string \<Rightarrow> string \<Rightarrow> string \<Rightarrow> (error + unit) \<times> world" where
  "clear w account protocol name =
     (let k = secret_id account protocol name;
          w1 = w\<lparr>self_key := Some k\<rparr>
      in case update_secret w1 k '' '' of
           (Inl e, w2) \<Rightarrow> (Inl e, w2)
         | (Inr u, w2) \<Rightarrow> (Inr (), print (''Cleared: '' @ k) w2))"

definition empty_payload_message :: "string \<Rightarrow> string" where
  "empty_payload_message k =
     ''Namespace exists, but the payload is empty.  Please update '' @ k
       @ '' with current credentials.''"

definition get :: "runtime \<Rightarrow> world \<Rightarrow> string \<Rightarrow> string \<Rightarrow> string \<Rightarrow> (error + pyval) \<times> world" where
  "get rt w account protocol name =
     (let k = secret_id account protocol name;
          w1 = w\<lparr>self_key := Some k\<rparr>
      in case get_secret_value w1 k of
           (Inl e, w2) \<Rightarrow> (Inl e, w2)
         | (Inr secret, w2) \<Rightarrow>
             if secret = '' '' then (Inl (KeyError (empty_payload_message k)), w2)
             else (py_eval rt secret, w2))"

text \<open>Python's \<open>any\<close> on a list of booleans.\<close>

fun any :: "bool list \<Rightarrow> bool" where
  "any [] = False"
| "any (b # bs) = (b \<or> any bs)"

definition source_empty_message :: string where
  "source_empty_message =
     ''No credentials exist for the specified account, protocol, and name you are using to replace!''"

definition overwrite_warning :: "string \<Rightarrow> string \<Rightarrow> string" where
  "overwrite_warning new_key old_key =
     ''Warning: '' @ new_key @ '' may have been overwritten by '' @ old_key"

definition rename ::
  "runtime \<Rightarrow> world \<Rightarrow> string \<Rightarrow> string \<Rightarrow> string \<Rightarrow> string \<Rightarrow> string \<Rightarrow> string
     \<Rightarrow> (error + unit) \<times> world" where
  "rename rt w old_account old_protocol old_name new_account new_protocol new_name =
     (let old_key = secret_id old_account old_protocol old_name;
          new_key = secret_id new_account new_protocol new_name
      in if \<not> any [old_account \<noteq> new_account, old_protocol \<noteq> new_protocol, old_name \<noteq> new_name]
         then (Inl (KeyError ''Nothing has been renamed!''), w)
         else
           (case get_secret_value (print old_key w) old_key of
              (Inl e, w2) \<Rightarrow> (Inl e, w2)
            | (Inr old_secret, w2) \<Rightarrow>
                if old_secret = '' '' then (Inl (KeyError source_empty_message), w2)
                else
                  (case py_eval rt old_secret of
                     Inl e \<Rightarrow> (Inl e, w2)
                   | Inr payload \<Rightarrow>
                       (case stamp w2 payload of
                          (Inl e, w3) \<Rightarrow> (Inl e, w3)
                        | (Inr p, w3) \<Rightarrow>
                            (case prepare w3 None None None p of
                               (Inl e, w4) \<Rightarrow> (Inl e, w4)
                             | (Inr u, w4) \<Rightarrow>
                                 (case add rt w4 new_account new_protocol new_name p of
                                    (Inr u', p', w5) \<Rightarrow> clear w5 old_account old_protocol old_name
                                  | (Inl e, p', w5) \<Rightarrow>
                                      (case update rt w5 new_account new_protocol new_name p' of
                                         (Inl e', p'', w6) \<Rightarrow> (Inl e', w6)
                                       | (Inr u', p'', w6) \<Rightarrow>
                                           clear (print (overwrite_warning new_key old_key) w6)
                                             old_account old_protocol old_name)))))))"

text \<open>
  The \<open>while 'NextToken' in next_page\<close> loop of \<open>list_all\<close> together with the
  \<open>for\<close> loop after it: the names of every page but the last are appended inside
  the loop, those of the last page after it.
\<close>

function drain :: "world \<Rightarrow> page \<Rightarrow> string list \<Rightarrow> (error + string list) \<times> world" where
  "drain w next_page acc =
     (case NextToken next_page of
        None \<Rightarrow> (Inr (acc @ SecretList next_page), w)
      | Some t \<Rightarrow>
          (case list_secrets w (Some t) of
             (Inl e, w1) \<Rightarrow> (Inl e, w1)
           | (Inr pg, w1) \<Rightarrow> drain w1 pg (acc @ SecretList next_page)))"
  by pat_completeness auto
termination
  by (relation "measure (\<lambda>(w, pg, acc).
        case NextToken pg of None \<Rightarrow> 0 | Some t \<Rightarrow> Suc (length (secrets w) - t))")
     (auto simp: list_secrets_def log_call_def Let_def split: if_splits)

declare drain.simps [simp del]

text \<open>The method \<open>list_all\<close> (named apart from the list library's \<open>list_all\<close>).\<close>

definition list_all_secrets :: "world \<Rightarrow> (error + string list) \<times> world" where
  "list_all_secrets w =
     (case list_secrets w None of
        (Inl e, w1) \<Rightarrow> (Inl e, w1)
      | (Inr first_page, w1) \<Rightarrow>
          (case NextToken first_page of
             None \<Rightarrow> (Inl (KeyError ''NextToken''), w1)
           | Some t \<Rightarrow>
               (case list_secrets w1 (Some t) of
                  (Inl e, w2) \<Rightarrow> (Inl e, w2)
                | (Inr next_page, w2) \<Rightarrow>
                    (case drain w2 next_page (SecretList first_page) of
                       (Inl e, w3) \<Rightarrow> (Inl e, w3)
                     | (Inr names, w3) \<Rightarrow> (Inr (sort names), w3)))))"

definition get_template :: "string \<Rightarrow> string \<Rightarrow> string \<Rightarrow> string" where
  "get_template s_account s_protocol s_name =
     ''- get(account='' @ [CHR 0x27] @ s_account @ [CHR 0x27] @
     '',protocol='' @ [CHR 0x27] @ s_protocol @ [CHR 0x27] @
     '',name='' @ [CHR 0x27] @ s_name @ [CHR 0x27] @ '')''"

text \<open>
  The body of the \<open>for\<close> loop of \<open>search\<close>: an identifier that does not split into
  exactly three fields makes the unpacking raise \<open>ValueError\<close>.
\<close>

fun search_loop ::
  "world \<Rightarrow> string option \<Rightarrow> string option \<Rightarrow> string option \<Rightarrow> string list \<Rightarrow> (error + unit) \<times> world" where
  "search_loop w account protocol name [] = (Inr (), w)"
| "search_loop w account protocol name (secret # rest) =
     (case split CHR ''/'' secret of
        [s_account, s_protocol, s_name] \<Rightarrow>
          (let f_account = (if account = None then None else Some s_account);
               f_protocol = (if protocol = None then None else Some s_protocol);
               f_name = (if name = None then None else Some s_name)
           in search_loop
                (if f_account = account \<and> f_protocol = protocol \<and> f_name = name
                 then print (get_template s_account s_protocol s_name) w else w)
                account protocol name rest)
      | _ \<Rightarrow> (Inl (ValueError ''wrong number of values to unpack (expected 3)''), w))"

definition search ::
  "world \<Rightarrow> string option \<Rightarrow> string option \<Rightarrow> string option \<Rightarrow> (error + unit) \<times> world" where
  "search w account protocol name =
     (case list_all_secrets w of
        (Inl e, w1) \<Rightarrow> (Inl e, w1)
      | (Inr names, w1) \<Rightarrow> search_loop w1 account protocol name names)"

section \<open>The DynamoDB lookup\<close>

text \<open>
  \<open>load_credentials\<close>. The table maps a client to its item; \<open>get_item\<close> answers
  without an \<open>Item\<close> entry for an unknown client. Every exception raised inside the
  \<open>try\<close> block is replaced by one generic exception.
\<close>

datatype lookup_result = Cred pyval | Items "pyval list"

definition lookup_failed_message :: string where
  "lookup_failed_message =
     ''Could not load credentials for the specified client.  Verify the client you are trying to load.''"

definition select_cred :: "pyval \<Rightarrow> string \<Rightarrow> string \<Rightarrow> error + pyval" where
  "select_cred item protocol name =
     (if protocol \<noteq> ''all'' \<and> name = ''all'' then getitem item protocol
      else if protocol \<noteq> ''all'' \<and> name \<noteq> ''all'' then
        (case getitem item protocol of Inl e \<Rightarrow> Inl e | Inr sub \<Rightarrow> getitem sub name)
      else Inr item)"

definition coerce_port :: "runtime \<Rightarrow> pyval \<Rightarrow> error + pyval" where
  "coerce_port rt cred =
     (case cred of
        PDict d \<Rightarrow>
          (case map_of d ''port'' of
             None \<Rightarrow> Inr cred
           | Some v \<Rightarrow>
               (case py_int rt v of
                  Inl e \<Rightarrow> Inl e
                | Inr i \<Rightarrow> Inr (PDict (dict_setitem d ''port'' (PInt i)))))
      | _ \<Rightarrow> Inl (AttributeError ''keys''))"

definition load_credentials ::
  "runtime \<Rightarrow> (string \<times> pyval) list \<Rightarrow> string \<Rightarrow> string \<Rightarrow> string \<Rightarrow> error + lookup_result" where
  "load_credentials rt table client protocol name =
     (if client \<noteq> ''all'' then
        (case (case map_of table client of
                 None \<Rightarrow> Inl (KeyError ''Item'')
               | Some item \<Rightarrow>
                   (case select_cred item protocol name of
                      Inl e \<Rightarrow> Inl e
                    | Inr cred \<Rightarrow> coerce_port rt cred)) of
           Inl e \<Rightarrow> Inl (Exception lookup_failed_message)
         | Inr cred \<Rightarrow> Inr (Cred cred))
      else Inr (Items (map snd table)))"

section \<open>Specification vocabulary\<close>

text \<open>The payload after both audit assignments, and the reading of its audit fields.\<close>

definition stamped_dict :: "string \<Rightarrow> string \<Rightarrow> pydict \<Rightarrow> pydict" where
  "stamped_dict by time d =
     dict_setitem (dict_setitem d ''last_modified_by'' (PStr by)) ''last_modified_time'' (PStr time)"

definition audited :: "pyval \<Rightarrow> string \<Rightarrow> string \<Rightarrow> bool" where
  "audited p by time =
     (getitem p ''last_modified_by'' = Inr (PStr by) \<and>
      getitem p ''last_modified_time'' = Inr (PStr time))"

text \<open>
  The read shape of the lookup as the specification words it: the full record if both
  \<open>protocol\<close> and \<open>name\<close> are \<open>'all'\<close>, the protocol sub-mapping if only \<open>name\<close> is
  \<open>'all'\<close>, the single named bundle otherwise.
\<close>

definition claimed_read_shape :: "pyval \<Rightarrow> string \<Rightarrow> string \<Rightarrow> error + pyval" where
  "claimed_read_shape item protocol name =
     (if protocol = ''all'' \<and> name = ''all'' then Inr item
      else if protocol \<noteq> ''all'' \<and> name = ''all'' then getitem item protocol
      else (case getitem item protocol of Inl e \<Rightarrow> Inl e | Inr sub \<Rightarrow> getitem sub name))"

text \<open>
  The read shape with the one change the code forces: the full record whenever
  \<open>protocol\<close> is \<open>'all'\<close>, whatever \<open>name\<close> is.
\<close>

definition read_shape :: "pyval \<Rightarrow> string \<Rightarrow> string \<Rightarrow> error + pyval" where
  "read_shape item protocol name =
     (if protocol = ''all'' then Inr item
      else if name = ''all'' then getitem item protocol
      else (case getitem item protocol of Inl e \<Rightarrow> Inl e | Inr sub \<Rightarrow> getitem sub name))"

text \<open>
  Vocabulary for the listing and the search: the page the backend serves at an offset,
  the calls that only list, the fields of an identifier, the filter of \<open>search\<close> on
  an identifier of three fields, and the line printed for it.
\<close>

definition page_at :: "nat \<Rightarrow> string list \<Rightarrow> nat \<Rightarrow> page" where
  "page_at n names t =
     \<lparr>SecretList = take n (drop t names),
      NextToken = (if t + n < length names then Some (t + n) else None)\<rparr>"

fun is_listing :: "backend_call \<Rightarrow> bool" where
  "is_listing (ListSecrets tok) = True"
| "is_listing c = False"

definition fields :: "string \<Rightarrow> string list" where
  "fields s = split CHR ''/'' s"

definition is_triplet :: "string \<Rightarrow> bool" where
  "is_triplet s = (length (fields s) = 3)"

definition matches :: "string option \<Rightarrow> string option \<Rightarrow> string option \<Rightarrow> string \<Rightarrow> bool" where
  "matches account protocol name s =
     ((account = None \<or> account = Some (fields s ! 0)) \<and>
      (protocol = None \<or> protocol = Some (fields s ! 1)) \<and>
      (name = None \<or> name = Some (fields s ! 2)))"

definition template_of :: "string \<Rightarrow> string" where
  "template_of s = get_template (fields s ! 0) (fields s ! 1) (fields s ! 2)"

section \<open>A concrete scenario\<close>

text \<open>
  A backend of two secrets, one of them cleared, that answers a listing in one page;
  the user \<open>alice\<close>; three clock readings. The runtime is given on the values the
  scenario meets: \<open>eval\<close> on the stored secret, \<open>int\<close> on integers and on the port
  string; \<open>str\<close> of a payload is not inspected and stands as \<open>{...}\<close>.
\<close>

definition scenario_clock :: "nat \<Rightarrow> string" where
  "scenario_clock n =
     (if n = 0 then ''2024-01-01 10:00:00.000100''
      else if n = 1 then ''2024-01-01 10:00:00.000200''
      else ''2024-01-01 10:00:00.000300'')"

definition scenario_world :: world where
  "scenario_world =
     \<lparr>secrets = [(''ops/db/prod'', ''{'host': 'h'}''), (''ops/db/old'', '' '')],
      page_size = 100, calls = [], self_user = ''alice'', self_key = None,
      clock = scenario_clock, ticks = 0, stdout = []\<rparr>"

definition scenario_runtime :: runtime where
  "scenario_runtime =
     \<lparr>py_str = (\<lambda>v. ''{...}''),
      py_eval = (\<lambda>s. if s = ''{'host': 'h'}'' then Inr (PDict [(''host'', PStr ''h'')])
                     else Inl SyntaxError),
      py_int = (\<lambda>v. case v of
                       PInt i \<Rightarrow> Inr i
                     | PStr s \<Rightarrow> if s = ''5432'' then Inr 5432 else Inl (ValueError s)
                     | PDict d \<Rightarrow> Inl (TypeError ''int() argument must be a string or a number''))\<rparr>"

definition scenario_item :: pyval where
  "scenario_item =
     PDict [(''client'', PStr ''ops''),
            (''db'', PDict [(''prod'', PDict [(''host'', PStr ''h''), (''port'', PStr ''5432'')])])]"

definition scenario_table :: "(string \<times> pyval) list" where
  "scenario_table = [(''ops'', scenario_item)]"

section \<open>Facts about the store and the operations\<close>

lemma replace_secret_Nil: "replace_secret name s [] = []"
  by (simp add: replace_secret_def)

lemma replace_secret_Cons:
  "replace_secret name s ((k, v) # xs)
     = (if k = name then (k, s) else (k, v)) # replace_secret name s xs"
  by (simp add: replace_secret_def)

lemma map_of_replace_secret_same:
  "name \<in> fst ` set xs \<Longrightarrow> map_of (replace_secret name s xs) name = Some s"
proof (induction xs)
  case Nil then show ?case by simp
next
  case (Cons a xs)
  obtain k v where a: "a = (k, v)" by (cases a)
  show ?case using Cons by (cases "k = name") (simp_all add: a replace_secret_Cons)
qed

lemma map_of_replace_secret_other:
  "k' \<noteq> name \<Longrightarrow> map_of (replace_secret name s xs) k' = map_of xs k'"
proof (induction xs)
  case Nil then show ?case by (simp add: replace_secret_Nil)
next
  case (Cons a xs)
  obtain k v where a: "a = (k, v)" by (cases a)
  show ?case using Cons by (cases "k = name") (simp_all add: a replace_secret_Cons)
qed

lemma keys_replace_secret: "map fst (replace_secret name s xs) = map fst xs"
  by (simp add: replace_secret_def case_prod_beta)

lemma map_of_append_new:
  "name \<notin> fst ` set xs \<Longrightarrow> map_of (xs @ [(name, s)]) k' = (if k' = name then Some s else map_of xs k')"
  by (induction xs) auto

lemma map_of_dict_setitem: "map_of (dict_setitem d k v) = (map_of d)(k \<mapsto> v)"
  by (induction d k v rule: dict_setitem.induct) auto

lemma stamp_dict:
  "stamp w (PDict d)
     = (Inr (PDict (stamped_dict (self_user w) (clock w (ticks w)) d)), w\<lparr>ticks := Suc (ticks w)\<rparr>)"
  by (simp add: stamp_def stamped_dict_def datetime_now_def)

lemma add_dict:
  "add rt w account protocol name (PDict d) =
     (let k = secret_id (lower account) (lower protocol) (lower name);
          p = PDict (stamped_dict (self_user w) (clock w (ticks w)) d);
          w1 = w\<lparr>self_key := Some k, ticks := Suc (ticks w),
                 calls := calls w @ [CreateSecret k (py_str rt p)]\<rparr>
      in if k \<in> fst ` set (secrets w) then (Inl ResourceExistsException, p, w1)
         else (Inr (), p, w1\<lparr>secrets := secrets w @ [(k, py_str rt p)],
                               stdout := stdout w @ [''Added: '' @ k]\<rparr>))"
  by (simp add: add_def prepare_def stamp_dict create_secret_def log_call_def print_def Let_def)

lemma update_dict:
  "update rt w account protocol name (PDict d) =
     (let k = secret_id account protocol name;
          p = PDict (stamped_dict (self_user w) (clock w (ticks w)) d);
          w1 = w\<lparr>self_key := Some k, ticks := Suc (ticks w),
                 calls := calls w @ [UpdateSecret k (py_str rt p)]\<rparr>
      in if k \<in> fst ` set (secrets w)
         then (Inr (), p, w1\<lparr>secrets := replace_secret k (py_str rt p) (secrets w),
                               stdout := stdout w @ [''Updated: '' @ k]\<rparr>)
         else (Inl ResourceNotFoundException, p, w1))"
  by (simp add: update_def prepare_def stamp_dict update_secret_def log_call_def print_def Let_def)

lemma clear_eq:
  "clear w account protocol name =
     (let k = secret_id account protocol name;
          w1 = w\<lparr>self_key := Some k, calls := calls w @ [UpdateSecret k '' '']\<rparr>
      in if k \<in> fst ` set (secrets w)
         then (Inr (), w1\<lparr>secrets := replace_secret k '' '' (secrets w),
                           stdout := stdout w @ [''Cleared: '' @ k]\<rparr>)
         else (Inl ResourceNotFoundException, w1))"
  by (simp add: clear_def update_secret_def log_call_def print_def Let_def)

lemma get_eq:
  "get rt w account protocol name =
     (let k = secret_id account protocol name;
          w1 = w\<lparr>self_key := Some k, calls := calls w @ [GetSecretValue k]\<rparr>
      in case map_of (secrets w) k of
           None \<Rightarrow> (Inl ResourceNotFoundException, w1)
         | Some s \<Rightarrow> (if s = '' '' then Inl (KeyError (empty_payload_message k)) else py_eval rt s, w1))"
  by (simp add: get_def get_secret_value_def log_call_def Let_def split: option.splits)

lemma clear_leaves_sentinel:
  assumes "fst (clear w account protocol name) = Inr ()"
  shows "map_of (secrets (snd (clear w account protocol name))) (secret_id account protocol name) = Some '' ''"
  using assms by (simp add: clear_eq Let_def map_of_replace_secret_same split: if_splits)

lemma audited_stamped_dict: "audited (PDict (stamped_dict by time d)) by time"
  by (simp add: audited_def stamped_dict_def map_of_dict_setitem)

lemma rename_eq:
  assumes src: "map_of (secrets w) (secret_id old_account old_protocol old_name) = Some s"
      and ne: "s \<noteq> '' ''"
      and ev: "py_eval rt s = Inr (PDict d)"
      and diff: "any [old_account \<noteq> new_account, old_protocol \<noteq> new_protocol, old_name \<noteq> new_name]"
  shows "rename rt w old_account old_protocol old_name new_account new_protocol new_name =
     (let old_key = secret_id old_account old_protocol old_name;
          new_key = secret_id new_account new_protocol new_name;
          low_key = secret_id (lower new_account) (lower new_protocol) (lower new_name);
          u = self_user w; t = ticks w;
          d1 = stamped_dict u (clock w t) d;
          d2 = stamped_dict u (clock w (Suc t)) d1;
          d3 = stamped_dict u (clock w (Suc (Suc t))) d2;
          c1 = calls w @ [GetSecretValue old_key, CreateSecret low_key (py_str rt (PDict d2))]
      in if low_key \<notin> fst ` set (secrets w) then
           (Inr (), w\<lparr>self_key := Some old_key, ticks := Suc (Suc t),
                          calls := c1 @ [UpdateSecret old_key '' ''],
                          secrets := replace_secret old_key '' '' (secrets w @ [(low_key, py_str rt (PDict d2))]),
                          stdout := stdout w @ [old_key, ''Added: '' @ low_key, ''Cleared: '' @ old_key]\<rparr>)
         else if new_key \<in> fst ` set (secrets w) then
           (Inr (), w\<lparr>self_key := Some old_key, ticks := Suc (Suc (Suc t)),
                          calls := c1 @ [UpdateSecret new_key (py_str rt (PDict d3)), UpdateSecret old_key '' ''],
                          secrets := replace_secret old_key '' '' (replace_secret new_key (py_str rt (PDict d3)) (secrets w)),
                          stdout := stdout w @ [old_key, ''Updated: '' @ new_key,
                                                overwrite_warning new_key old_key, ''Cleared: '' @ old_key]\<rparr>)
         else
           (Inl ResourceNotFoundException,
            w\<lparr>self_key := Some new_key, ticks := Suc (Suc (Suc t)),
               calls := c1 @ [UpdateSecret new_key (py_str rt (PDict d3))],
               stdout := stdout w @ [old_key]\<rparr>))"
proof -
  have old_in: "secret_id old_account old_protocol old_name \<in> fst ` set (secrets w)"
    using src by (metis map_of_eq_None_iff option.distinct(1))
  show ?thesis
    using src ne ev diff old_in
    by (simp add: rename_def get_secret_value_def log_call_def print_def prepare_def
        stamp_dict add_dict update_dict clear_eq Let_def keys_replace_secret image_Un
        flip: set_map)
qed

lemma stamp_Inr_dict: "fst (stamp w p) = Inr p' \<Longrightarrow> \<exists>d. p = PDict d"
  by (cases p) (simp_all add: stamp_def)

lemma rename_success_source:
  assumes "rename rt w old_account old_protocol old_name new_account new_protocol new_name = (Inr (), w')"
  shows "\<exists>s d. map_of (secrets w) (secret_id old_account old_protocol old_name) = Some s
           \<and> s \<noteq> '' '' \<and> py_eval rt s = Inr (PDict d)
           \<and> any [old_account \<noteq> new_account, old_protocol \<noteq> new_protocol, old_name \<noteq> new_name]"
proof -
  let ?k = "secret_id old_account old_protocol old_name"
  have diff: "any [old_account \<noteq> new_account, old_protocol \<noteq> new_protocol, old_name \<noteq> new_name]"
    using assms by (auto simp: rename_def)
  obtain s where s: "map_of (secrets w) ?k = Some s"
    using assms diff
    by (cases "map_of (secrets w) ?k")
       (auto simp: rename_def get_secret_value_def log_call_def print_def Let_def)
  have ne: "s \<noteq> '' ''"
    using assms diff s
    by (auto simp: rename_def get_secret_value_def log_call_def print_def Let_def)
  obtain payload where ev: "py_eval rt s = Inr payload"
    using assms diff s ne
    by (cases "py_eval rt s")
       (auto simp: rename_def get_secret_value_def log_call_def print_def Let_def)
  obtain d where "payload = PDict d"
    using assms diff s ne ev
    by (cases payload)
       (auto simp: rename_def get_secret_value_def log_call_def print_def Let_def stamp_def)
  with s ne ev diff show ?thesis by blast
qed

lemma map_of_replace_secret_mem:
  "(name, b) \<in> set xs \<Longrightarrow> map_of (replace_secret name s xs) name = Some s"
  by (rule map_of_replace_secret_same) force

lemma add_self_key: "self_key (snd (snd (add rt w account protocol name payload)))
   = Some (secret_id (lower account) (lower protocol) (lower name))"
  by (cases payload)
     (simp_all add: add_def prepare_def stamp_def datetime_now_def create_secret_def log_call_def
        print_def Let_def split: sum.splits prod.splits)

lemma update_self_key: "self_key (snd (snd (update rt w account protocol name payload)))
   = Some (secret_id account protocol name)"
  by (cases payload)
     (simp_all add: update_def prepare_def stamp_def datetime_now_def update_secret_def log_call_def
        print_def Let_def split: sum.splits prod.splits)

lemma lower_Ops: "lower ''Ops'' = ''ops''" by code_simp

lemma lower_ops: "lower ''ops'' = ''ops''" by code_simp

lemma lower_db: "lower ''db'' = ''db''" by code_simp

lemma lower_prod: "lower ''prod'' = ''prod''" by code_simp

lemma lower_new: "lower ''new'' = ''new''" by code_simp

subsection \<open>Listings of two or more pages, and the search over them\<close>

lemma list_secrets_Some:
  assumes "t < length (secrets w)"
  shows "list_secrets w (Some t) =
     (Inr \<lparr>SecretList = take (max 1 (page_size w)) (drop t (map fst (secrets w))),
            NextToken = (if t + max 1 (page_size w) < length (secrets w)
                         then Some (t + max 1 (page_size w)) else None)\<rparr>,
      log_call (ListSecrets (Some t)) w)"
  using assms by (simp add: list_secrets_def log_call_def Let_def)

lemma list_secrets_None:
  "list_secrets w None =
     (Inr \<lparr>SecretList = take (max 1 (page_size w)) (map fst (secrets w)),
            NextToken = (if max 1 (page_size w) < length (secrets w)
                         then Some (max 1 (page_size w)) else None)\<rparr>,
      log_call (ListSecrets None) w)"
  by (simp add: list_secrets_def log_call_def Let_def)

lemma list_secrets_page_at:
  assumes "t < length (secrets w)"
  shows "list_secrets w (Some t)
           = (Inr (page_at (max 1 (page_size w)) (map fst (secrets w)) t),
              log_call (ListSecrets (Some t)) w)"
  using assms by (simp add: list_secrets_Some page_at_def)

lemma drain_result:
  assumes "0 < n"
  shows "map fst (secrets w) = names \<Longrightarrow> max 1 (page_size w) = n \<Longrightarrow> t < length names \<Longrightarrow>
         fst (drain w (page_at n names t) acc) = Inr (acc @ drop t names)"
proof (induction "length names - t" arbitrary: w t acc rule: less_induct)
  case less
  show ?case
  proof (cases "t + n < length names")
    case False
    then have "take n (drop t names) = drop t names" by simp
    with False show ?thesis
      by (subst drain.simps) (simp add: page_at_def)
  next
    case True
    let ?w1 = "log_call (ListSecrets (Some (t + n))) w"
    have lt: "t + n < length (secrets w)" using True less.prems(1) by (metis length_map)
    have ls: "list_secrets w (Some (t + n)) = (Inr (page_at n names (t + n)), ?w1)"
      using list_secrets_page_at [OF lt] less.prems(1,2) by simp
    have s1: "map fst (secrets ?w1) = names" and p1: "max 1 (page_size ?w1) = n"
      using less.prems(1,2) by (simp_all add: log_call_def)
    have m: "length names - (t + n) < length names - t"
      using True assms by simp
    have ih: "fst (drain ?w1 (page_at n names (t + n)) (acc @ take n (drop t names)))
         = Inr ((acc @ take n (drop t names)) @ drop (t + n) names)"
      by (rule less.hyps [OF m s1 p1 True])
    have td: "take n (drop t names) @ drop (t + n) names = drop t names"
      by (metis add.commute append_take_drop_id drop_drop)
    have step: "drain w (page_at n names t) acc
                  = drain ?w1 (page_at n names (t + n)) (acc @ take n (drop t names))"
      using True by (subst drain.simps) (simp add: page_at_def ls)
    show ?thesis using ih td by (simp add: step)
  qed
qed

lemma list_all_multi_page:
  assumes "max 1 (page_size w) < length (secrets w)"
  shows "fst (list_all_secrets w) = Inr (sort (map fst (secrets w)))"
proof -
  define n where "n = max 1 (page_size w)"
  define names where "names = map fst (secrets w)"
  let ?w1 = "log_call (ListSecrets None) w"
  let ?w2 = "log_call (ListSecrets (Some n)) ?w1"
  have n0: "0 < n" by (simp add: n_def)
  have lt: "n < length names" using assms by (simp add: n_def names_def)
  have l1: "list_secrets w None = (Inr (page_at n names 0), ?w1)"
    by (simp add: list_secrets_None page_at_def n_def names_def)
  have lt1: "n < length (secrets ?w1)" using lt by (simp add: log_call_def names_def)
  have l2: "list_secrets ?w1 (Some n) = (Inr (page_at n names n), ?w2)"
    using list_secrets_page_at [OF lt1] by (simp add: log_call_def n_def names_def)
  have s2: "map fst (secrets ?w2) = names" and p2: "max 1 (page_size ?w2) = n"
    by (simp_all add: log_call_def n_def names_def)
  have d: "fst (drain ?w2 (page_at n names n) (take n names)) = Inr (take n names @ drop n names)"
    by (rule drain_result [OF n0 s2 p2 lt])
  have tok: "NextToken (page_at n names 0) = Some n" and sl: "SecretList (page_at n names 0) = take n names"
    using lt by (simp_all add: page_at_def)
  obtain r w3 where dr: "drain ?w2 (page_at n names n) (take n names) = (r, w3)"
    by (cases "drain ?w2 (page_at n names n) (take n names)")
  have r: "r = Inr names" using d dr by simp
  have "list_all_secrets w = (Inr (sort names), w3)"
    by (simp add: list_all_secrets_def l1 l2 tok sl dr r)
  then show ?thesis by (simp add: names_def)
qed

lemma list_all_multi_page_sorted:
  assumes "max 1 (page_size w) < length (secrets w)" and "distinct (map fst (secrets w))"
  shows "\<exists>names. fst (list_all_secrets w) = Inr names \<and> sorted names \<and> distinct names
           \<and> set names = fst ` set (secrets w)"
  using list_all_multi_page [OF assms(1)] assms(2) by simp

lemma drain_frame:
  "\<exists>cs. snd (drain w pg acc) = w\<lparr>calls := calls w @ cs\<rparr> \<and> list_all is_listing cs"
proof (induction w pg acc rule: drain.induct)
  case (1 w next_page acc)
  show ?case
  proof (cases "NextToken next_page")
    case None
    then have "snd (drain w next_page acc) = w\<lparr>calls := calls w @ []\<rparr>"
      by (subst drain.simps) simp
    then show ?thesis by (intro exI [of _ "[]"]) simp
  next
    case (Some t)
    obtain r w1 where ls: "list_secrets w (Some t) = (r, w1)" by (cases "list_secrets w (Some t)")
    have w1: "w1 = w\<lparr>calls := calls w @ [ListSecrets (Some t)]\<rparr>"
      using ls by (auto simp: list_secrets_def log_call_def Let_def split: if_splits)
    show ?thesis
    proof (cases r)
      case (Inl e)
      then have "snd (drain w next_page acc) = w\<lparr>calls := calls w @ [ListSecrets (Some t)]\<rparr>"
        using Some ls w1 by (subst drain.simps) simp
      then show ?thesis by (intro exI [of _ "[ListSecrets (Some t)]"]) simp
    next
      case (Inr pg)
      then have step: "drain w next_page acc = drain w1 pg (acc @ SecretList next_page)"
        using Some ls by (subst drain.simps) simp
      obtain cs where cs: "snd (drain w1 pg (acc @ SecretList next_page)) = w1\<lparr>calls := calls w1 @ cs\<rparr>"
          and l: "list_all is_listing cs"
        using "1.IH" [OF Some ls [symmetric] Inr] by auto
      show ?thesis
        using cs l by (intro exI [of _ "ListSecrets (Some t) # cs"]) (simp add: step w1)
    qed
  qed
qed

lemma list_secrets_frame:
  "snd (list_secrets w tok) = w\<lparr>calls := calls w @ [ListSecrets tok]\<rparr>"
  by (simp add: list_secrets_def log_call_def Let_def)

lemma list_all_frame:
  "\<exists>cs. snd (list_all_secrets w) = w\<lparr>calls := calls w @ cs\<rparr> \<and> list_all is_listing cs"
proof -
  obtain r1 w1 where l1: "list_secrets w None = (r1, w1)" by (cases "list_secrets w None")
  have w1: "w1 = w\<lparr>calls := calls w @ [ListSecrets None]\<rparr>"
    using list_secrets_frame [of w None] l1 by simp
  show ?thesis
  proof (cases r1)
    case (Inl e)
    then have "snd (list_all_secrets w) = w1" by (simp add: list_all_secrets_def l1)
    then show ?thesis using w1 by (intro exI [of _ "[ListSecrets None]"]) simp
  next
    case first: (Inr first_page)
    show ?thesis
    proof (cases "NextToken first_page")
      case None
      then have "snd (list_all_secrets w) = w1" by (simp add: list_all_secrets_def l1 first)
      then show ?thesis using w1 by (intro exI [of _ "[ListSecrets None]"]) simp
    next
      case (Some t)
      obtain r2 w2 where l2: "list_secrets w1 (Some t) = (r2, w2)" by (cases "list_secrets w1 (Some t)")
      have w2: "w2 = w\<lparr>calls := calls w @ [ListSecrets None, ListSecrets (Some t)]\<rparr>"
        using list_secrets_frame [of w1 "Some t"] l2 w1 by simp
      show ?thesis
      proof (cases r2)
        case (Inl e)
        then have "snd (list_all_secrets w) = w2" by (simp add: list_all_secrets_def l1 first Some l2)
        then show ?thesis using w2 by (intro exI [of _ "[ListSecrets None, ListSecrets (Some t)]"]) simp
      next
        case (Inr next_page)
        obtain cs where cs: "snd (drain w2 next_page (SecretList first_page)) = w2\<lparr>calls := calls w2 @ cs\<rparr>"
            and l: "list_all is_listing cs"
          using drain_frame by blast
        have "snd (list_all_secrets w) = snd (drain w2 next_page (SecretList first_page))"
          by (simp add: list_all_secrets_def l1 first Some l2 Inr split: prod.splits sum.splits)
        then show ?thesis
          using cs l w2 by (intro exI [of _ "ListSecrets None # ListSecrets (Some t) # cs"]) simp
      qed
    qed
  qed
qed

lemma is_triplet_fields:
  assumes "is_triplet s"
  obtains a b c where "split CHR ''/'' s = [a, b, c]"
proof -
  from assms have "length (split CHR ''/'' s) = 3" by (simp add: is_triplet_def fields_def)
  then obtain a b c where "split CHR ''/'' s = [a, b, c]"
    by (auto simp: numeral_3_eq_3 length_Suc_conv)
  then show ?thesis by (rule that)
qed

lemma search_loop_prints:
  "list_all is_triplet names \<Longrightarrow>
   search_loop w account protocol name names
     = (Inr (), w\<lparr>stdout := stdout w @ map template_of (filter (matches account protocol name) names)\<rparr>)"
proof (induction names arbitrary: w)
  case Nil
  then show ?case by simp
next
  case (Cons s names)
  then have t: "is_triplet s" and rest: "list_all is_triplet names" by simp_all
  obtain a b c where f: "split CHR ''/'' s = [a, b, c]" using t by (rule is_triplet_fields)
  have step: "search_loop w account protocol name (s # names)
      = search_loop (if matches account protocol name s then print (template_of s) w else w)
          account protocol name names"
    by (cases account; cases protocol; cases name)
       (simp_all add: f matches_def template_of_def fields_def Let_def)
  show ?case
  proof (cases "matches account protocol name s")
    case True
    then show ?thesis
      unfolding step using Cons.IH [OF rest, of "print (template_of s) w"]
      by (simp add: print_def)
  next
    case False
    then show ?thesis
      unfolding step using Cons.IH [OF rest, of w] by simp
  qed
qed

lemma search_loop_frame:
  "\<exists>out. snd (search_loop w account protocol name names) = w\<lparr>stdout := stdout w @ out\<rparr>"
proof (induction names arbitrary: w)
  case Nil
  show ?case by (intro exI [of _ "[]"]) simp
next
  case (Cons s names)
  show ?case
  proof (cases "is_triplet s")
    case False
    then have "snd (search_loop w account protocol name (s # names)) = w"
      by (auto simp: is_triplet_def fields_def split: list.splits)
    then show ?thesis by (intro exI [of _ "[]"]) simp
  next
    case True
    then obtain a b c where f: "split CHR ''/'' s = [a, b, c]" by (rule is_triplet_fields)
    have step: "search_loop w account protocol name (s # names)
      = search_loop (if matches account protocol name s then print (template_of s) w else w)
          account protocol name names"
      by (cases account; cases protocol; cases name)
         (simp_all add: f matches_def template_of_def fields_def Let_def)
    show ?thesis
    proof (cases "matches account protocol name s")
      case True
      obtain out where "snd (search_loop (print (template_of s) w) account protocol name names)
          = (print (template_of s) w)\<lparr>stdout := stdout (print (template_of s) w) @ out\<rparr>"
        using Cons.IH by blast
      then show ?thesis
        unfolding step using True by (intro exI [of _ "template_of s # out"]) (simp add: print_def)
    next
      case False
      then show ?thesis unfolding step using Cons.IH [of w] by simp
    qed
  qed
qed

lemma search_frame:
  "\<exists>cs out. snd (search w account protocol name) = w\<lparr>calls := calls w @ cs, stdout := stdout w @ out\<rparr>
      \<and> list_all is_listing cs"
proof -
  obtain r w1 where l: "list_all_secrets w = (r, w1)" by (cases "list_all_secrets w")
  obtain cs where w1: "w1 = w\<lparr>calls := calls w @ cs\<rparr>" and cs: "list_all is_listing cs"
    using list_all_frame [of w] l by auto
  show ?thesis
  proof (cases r)
    case (Inl e)
    then have "snd (search w account protocol name) = w\<lparr>calls := calls w @ cs, stdout := stdout w @ []\<rparr>"
      by (simp add: search_def l w1)
    then show ?thesis using cs by blast
  next
    case (Inr names)
    obtain out where "snd (search_loop w1 account protocol name names) = w1\<lparr>stdout := stdout w1 @ out\<rparr>"
      using search_loop_frame by blast
    then have "snd (search w account protocol name) = w\<lparr>calls := calls w @ cs, stdout := stdout w @ out\<rparr>"
      by (simp add: search_def l Inr w1)
    then show ?thesis using cs by blast
  qed
qed

lemma search_multi_page:
  assumes "max 1 (page_size w) < length (secrets w)"
      and "list_all is_triplet (map fst (secrets w))"
  shows "fst (search w account protocol name) = Inr ()
       \<and> stdout (snd (search w account protocol name))
           = stdout w @ map template_of
               (filter (matches account protocol name) (sort (map fst (secrets w))))"
proof -
  obtain w1 where l: "list_all_secrets w = (Inr (sort (map fst (secrets w))), w1)"
    using list_all_multi_page [OF assms(1)] by (cases "list_all_secrets w") simp
  obtain cs where w1: "w1 = w\<lparr>calls := calls w @ cs\<rparr>"
    using list_all_frame [of w] l by auto
  have tr: "list_all is_triplet (sort (map fst (secrets w)))"
    using assms(2) by (simp add: list_all_iff)
  show ?thesis
    by (simp add: search_def l search_loop_prints [OF tr] w1)
qed

lemma matches_owner: "matches (Some owner) None None s = (fields s ! 0 = owner)"
  by (auto simp: matches_def)

lemma map_of_stamped_dict:
  "map_of (stamped_dict by time d)
     = (map_of d)(''last_modified_by'' \<mapsto> PStr by, ''last_modified_time'' \<mapsto> PStr time)"
  by (simp add: stamped_dict_def map_of_dict_setitem)

lemma add_then_get_lowercase:
  assumes low: "lower account = account" "lower protocol = protocol" "lower name = name"
      and fresh: "secret_id account protocol name \<notin> fst ` set (secrets w)"
      and p: "p = PDict (stamped_dict (self_user w) (clock w (ticks w)) d)"
      and ne: "py_str rt p \<noteq> '' ''"
      and rt: "py_eval rt (py_str rt p) = Inr p"
  shows "fst (add rt w account protocol name (PDict d)) = Inr ()
       \<and> fst (get rt (snd (snd (add rt w account protocol name (PDict d)))) account protocol name) = Inr p"
  using fresh ne rt
  by (simp add: add_dict get_eq Let_def low p [symmetric] map_of_append_new del: map_of_append)

lemma rename_then_get_lowercase:
  assumes src: "map_of (secrets w) (secret_id old_account old_protocol old_name) = Some s"
      and ne: "s \<noteq> '' ''"
      and ev: "py_eval rt s = Inr (PDict d)"
      and low: "lower new_account = new_account" "lower new_protocol = new_protocol" "lower new_name = new_name"
      and keys: "secret_id old_account old_protocol old_name \<noteq> secret_id new_account new_protocol new_name"
      and str_ne: "\<And>x. py_str rt (PDict x) \<noteq> '' ''"
      and roundtrip: "\<And>x. py_eval rt (py_str rt (PDict x)) = Inr (PDict x)"
  shows "\<exists>w' d' t. rename rt w old_account old_protocol old_name new_account new_protocol new_name = (Inr (), w')
           \<and> fst (get rt w' new_account new_protocol new_name) = Inr (PDict d')
           \<and> map_of d' = (map_of d)(''last_modified_by'' \<mapsto> PStr (self_user w),
                                       ''last_modified_time'' \<mapsto> PStr (clock w t))
           \<and> ticks w < t \<and> t < ticks w'
           \<and> fst (get rt w' old_account old_protocol old_name)
               = Inl (KeyError (empty_payload_message (secret_id old_account old_protocol old_name)))"
proof -
  let ?old = "secret_id old_account old_protocol old_name"
  let ?new = "secret_id new_account new_protocol new_name"
  let ?u = "self_user w" and ?t = "ticks w"
  let ?d1 = "stamped_dict ?u (clock w ?t) d"
  let ?d2 = "stamped_dict ?u (clock w (Suc ?t)) ?d1"
  let ?d3 = "stamped_dict ?u (clock w (Suc (Suc ?t))) ?d2"
  let ?msg = "Inl (KeyError (empty_payload_message ?old)) :: error + pyval"
  have diff: "any [old_account \<noteq> new_account, old_protocol \<noteq> new_protocol, old_name \<noteq> new_name]"
    using keys by auto
  have old_in: "?old \<in> fst ` set (secrets w)"
    using src by (metis map_of_eq_None_iff option.distinct(1))
  have m2: "map_of ?d2 = (map_of d)(''last_modified_by'' \<mapsto> PStr ?u,
                                   ''last_modified_time'' \<mapsto> PStr (clock w (Suc ?t)))"
    by (auto simp: map_of_stamped_dict fun_eq_iff)
  have m3: "map_of ?d3 = (map_of d)(''last_modified_by'' \<mapsto> PStr ?u,
                                   ''last_modified_time'' \<mapsto> PStr (clock w (Suc (Suc ?t))))"
    by (auto simp: map_of_stamped_dict fun_eq_iff)
  note req = rename_eq [OF src ne ev diff, unfolded low Let_def]
  show ?thesis
  proof (cases "?new \<in> fst ` set (secrets w)")
    case False
    let ?xs = "secrets w @ [(?new, py_str rt (PDict ?d2))]"
    let ?w' = "w\<lparr>self_key := Some ?old, ticks := Suc (Suc ?t),
                  calls := (calls w @ [GetSecretValue ?old, CreateSecret ?new (py_str rt (PDict ?d2))])
                             @ [UpdateSecret ?old '' ''],
                  secrets := replace_secret ?old '' '' ?xs,
                  stdout := stdout w @ [?old, ''Added: '' @ ?new, ''Cleared: '' @ ?old]\<rparr>"
    have r: "rename rt w old_account old_protocol old_name new_account new_protocol new_name = (Inr (), ?w')"
      using False by (simp add: req)
    have n: "map_of (replace_secret ?old '' '' ?xs) ?new = Some (py_str rt (PDict ?d2))"
      using False keys
      by (simp add: map_of_replace_secret_other map_of_append_new del: map_of_append)
    have o: "map_of (replace_secret ?old '' '' ?xs) ?old = Some '' ''"
      using old_in by (intro map_of_replace_secret_same) simp
    have g1: "fst (get rt ?w' new_account new_protocol new_name) = Inr (PDict ?d2)"
      by (simp add: get_eq Let_def n str_ne roundtrip)
    have g2: "fst (get rt ?w' old_account old_protocol old_name) = ?msg"
      by (simp add: get_eq Let_def o)
    show ?thesis
      using r g1 g2 m2 by (intro exI [of _ ?w'] exI [of _ ?d2] exI [of _ "Suc ?t"]) simp
  next
    case True
    let ?xs = "replace_secret ?new (py_str rt (PDict ?d3)) (secrets w)"
    let ?w' = "w\<lparr>self_key := Some ?old, ticks := Suc (Suc (Suc ?t)),
                  calls := (calls w @ [GetSecretValue ?old, CreateSecret ?new (py_str rt (PDict ?d2))])
                             @ [UpdateSecret ?new (py_str rt (PDict ?d3)), UpdateSecret ?old '' ''],
                  secrets := replace_secret ?old '' '' ?xs,
                  stdout := stdout w @ [?old, ''Updated: '' @ ?new,
                                        overwrite_warning ?new ?old, ''Cleared: '' @ ?old]\<rparr>"
    have r: "rename rt w old_account old_protocol old_name new_account new_protocol new_name = (Inr (), ?w')"
      using True by (simp add: req)
    have n: "map_of (replace_secret ?old '' '' ?xs) ?new = Some (py_str rt (PDict ?d3))"
      using True keys
      by (simp add: map_of_replace_secret_other map_of_replace_secret_same)
    have "?old \<in> fst ` set ?xs"
      using old_in by (simp add: keys_replace_secret flip: set_map)
    then have o: "map_of (replace_secret ?old '' '' ?xs) ?old = Some '' ''"
      by (rule map_of_replace_secret_same)
    have g1: "fst (get rt ?w' new_account new_protocol new_name) = Inr (PDict ?d3)"
      by (simp add: get_eq Let_def n str_ne roundtrip)
    have g2: "fst (get rt ?w' old_account old_protocol old_name) = ?msg"
      by (simp add: get_eq Let_def o)
    show ?thesis
      using r g1 g2 m3 by (intro exI [of _ ?w'] exI [of _ ?d3] exI [of _ "Suc (Suc ?t)"]) simp
  qed
qed

section \<open>Claims\<close>

text \<open>
  C4. \<open>rename\<close> called with source and destination identical in all three fields
  fails with the \<open>KeyError\<close> "Nothing has been renamed!" (the NoOpRename failure)
  and returns the state it was given: no backend call is recorded, nothing is
  stored, printed or stamped.
\<close>

theorem rename_identical_noop:
  "rename rt w account protocol name account protocol name
     = (Inl (KeyError ''Nothing has been renamed!''), w)"
  by (simp add: rename_def)

text \<open>
  C10. When the first \<open>list_secrets\<close> response carries no continuation token (the
  whole listing fits in one page), \<open>list_all\<close> raises \<open>KeyError('NextToken')\<close>
  right after that first call instead of returning the identifiers.
\<close>

theorem list_all_single_page_raises:
  assumes "list_secrets w None = (Inr first_page, w1)" and "NextToken first_page = None"
  shows "list_all_secrets w = (Inl (KeyError ''NextToken''), w1)"
  using assms by (simp add: list_all_secrets_def)

theorem list_all_single_page_raises_witness:
  "list_secrets scenario_world None
     = (Inr \<lparr>SecretList = [''ops/db/prod'', ''ops/db/old''], NextToken = None\<rparr>,
        log_call (ListSecrets None) scenario_world)
   \<and> list_all_secrets scenario_world = (Inl (KeyError ''NextToken''), log_call (ListSecrets None) scenario_world)"
proof -
  have h: "list_secrets scenario_world None
     = (Inr \<lparr>SecretList = [''ops/db/prod'', ''ops/db/old''], NextToken = None\<rparr>,
        log_call (ListSecrets None) scenario_world)"
    by (simp add: list_secrets_def scenario_world_def log_call_def Let_def)
  show ?thesis using h list_all_single_page_raises [OF h] by simp
qed

text \<open>
  C5. \<open>get\<close> on a triplet whose stored secret is the sentinel \<open>' '\<close> fails with the
  \<open>KeyError\<close> whose message asks to update that identifier (EmptyPayload); on an
  identifier that was never created it fails with the backend's
  \<open>ResourceNotFoundException\<close> (NotFound); the two failures differ.
\<close>

theorem get_empty_payload:
  assumes "map_of (secrets w) (secret_id account protocol name) = Some '' ''"
      and "map_of (secrets w') (secret_id account protocol name) = None"
  shows "fst (get rt w account protocol name)
           = Inl (KeyError (''Namespace exists, but the payload is empty.  Please update ''
                 @ secret_id account protocol name @ '' with current credentials.''))
       \<and> fst (get rt w' account protocol name) = Inl ResourceNotFoundException
       \<and> fst (get rt w account protocol name) \<noteq> fst (get rt w' account protocol name)"
  using assms by (simp add: get_eq empty_payload_message_def Let_def)

theorem get_empty_payload_witness:
  "fst (clear scenario_world ''ops'' ''db'' ''prod'') = Inr ()
   \<and> fst (get scenario_runtime (snd (clear scenario_world ''ops'' ''db'' ''prod'')) ''ops'' ''db'' ''prod'')
       = Inl (KeyError ''Namespace exists, but the payload is empty.  Please update ops/db/prod with current credentials.'')
   \<and> fst (get scenario_runtime (scenario_world\<lparr>secrets := [(''ops/db/old'', '' '')]\<rparr>) ''ops'' ''db'' ''prod'')
       = Inl ResourceNotFoundException"
proof -
  have c: "fst (clear scenario_world ''ops'' ''db'' ''prod'') = Inr ()"
    by (simp add: clear_eq scenario_world_def secret_id_def Let_def)
  have h1: "map_of (secrets (snd (clear scenario_world ''ops'' ''db'' ''prod''))) (secret_id ''ops'' ''db'' ''prod'') = Some '' ''"
    by (rule clear_leaves_sentinel [OF c])
  have h2: "map_of (secrets (scenario_world\<lparr>secrets := [(''ops/db/old'', '' '')]\<rparr>)) (secret_id ''ops'' ''db'' ''prod'') = None"
    by (simp add: secret_id_def)
  show ?thesis using c get_empty_payload [OF h1 h2, of scenario_runtime]
    by (simp add: secret_id_def)
qed

text \<open>
  C2. The claim is that \<open>update\<close> builds its identifier as \<open>add\<close> does, lowercased.
  Evaluated on the triplet \<open>('Ops', 'db', 'prod')\<close>: \<open>update\<close> sets \<open>self.key\<close> to
  \<open>Ops/db/prod\<close> and sends that name to the backend, while \<open>add\<close> on the same
  arguments uses \<open>ops/db/prod\<close>.
\<close>

theorem update_identifier_not_lowercased:
  "self_key (snd (snd (update rt w ''Ops'' ''db'' ''prod'' payload))) = Some ''Ops/db/prod''
   \<and> self_key (snd (snd (add rt w ''Ops'' ''db'' ''prod'' payload))) = Some ''ops/db/prod''
   \<and> last (calls (snd (snd (update rt w ''Ops'' ''db'' ''prod'' (PDict d)))))
        = UpdateSecret ''Ops/db/prod''
            (py_str rt (PDict (stamped_dict (self_user w) (clock w (ticks w)) d)))"
  by (simp add: add_self_key update_self_key update_dict Let_def secret_id_def lower_Ops lower_db lower_prod)

text \<open>
  C1. The claim is that \<open>add\<close> followed by \<open>get\<close> with the same argument strings
  returns the payload. Evaluated on the triplet \<open>('Ops', 'db', 'prod')\<close> over an empty
  store: \<open>add\<close> succeeds (it stores under \<open>ops/db/prod\<close>) and \<open>get\<close> with the same
  strings reads \<open>Ops/db/prod\<close> and fails with the backend's
  \<open>ResourceNotFoundException\<close>.
\<close>

theorem add_then_get_uppercase:
  "fst (add rt (w\<lparr>secrets := []\<rparr>) ''Ops'' ''db'' ''prod'' (PDict d)) = Inr ()
   \<and> fst (get rt (snd (snd (add rt (w\<lparr>secrets := []\<rparr>) ''Ops'' ''db'' ''prod'' (PDict d))))
             ''Ops'' ''db'' ''prod'')
       = Inl ResourceNotFoundException"
  by (simp add: add_dict get_eq Let_def secret_id_def lower_Ops lower_db lower_prod)

text \<open>
  C3. The claim is that after \<open>rename\<close> the destination triplet reads back the
  source's payload. Evaluated on source \<open>('ops', 'db', 'prod')\<close> holding a payload
  and destination \<open>('Ops', 'db', 'new')\<close>: \<open>rename\<close> completes (its \<open>add\<close> stores under
  \<open>ops/db/new\<close>), \<open>get\<close> on the destination triplet reads \<open>Ops/db/new\<close> and fails
  with \<open>ResourceNotFoundException\<close>; \<open>get\<close> on the source triplet fails with the
  empty-payload \<open>KeyError\<close> as claimed.
\<close>

theorem rename_to_uppercase_destination:
  assumes "py_eval rt s = Inr (PDict d)" and "s \<noteq> '' ''"
  shows "fst (rename rt (w\<lparr>secrets := [(''ops/db/prod'', s)]\<rparr>) ''ops'' ''db'' ''prod'' ''Ops'' ''db'' ''new'') = Inr ()
       \<and> fst (get rt (snd (rename rt (w\<lparr>secrets := [(''ops/db/prod'', s)]\<rparr>)
                               ''ops'' ''db'' ''prod'' ''Ops'' ''db'' ''new''))
                 ''Ops'' ''db'' ''new'')
           = Inl ResourceNotFoundException
       \<and> fst (get rt (snd (rename rt (w\<lparr>secrets := [(''ops/db/prod'', s)]\<rparr>)
                               ''ops'' ''db'' ''prod'' ''Ops'' ''db'' ''new''))
                 ''ops'' ''db'' ''prod'')
           = Inl (KeyError (empty_payload_message ''ops/db/prod''))"
proof -
  let ?w = "w\<lparr>secrets := [(''ops/db/prod'', s)]\<rparr>"
  have src: "map_of (secrets ?w) (secret_id ''ops'' ''db'' ''prod'') = Some s"
    by (simp add: secret_id_def)
  have diff: "any [''ops'' \<noteq> ''Ops'', ''db'' \<noteq> ''db'', ''prod'' \<noteq> ''new'']" by simp
  show ?thesis
    by (simp add: rename_eq [OF src assms(2) assms(1) diff] get_eq Let_def secret_id_def
        lower_Ops lower_db lower_new replace_secret_def)
qed

theorem rename_to_uppercase_destination_witness:
  "fst (rename scenario_runtime (scenario_world\<lparr>secrets := [(''ops/db/prod'', ''{'host': 'h'}'')]\<rparr>)
          ''ops'' ''db'' ''prod'' ''Ops'' ''db'' ''new'') = Inr ()
   \<and> fst (get scenario_runtime
            (snd (rename scenario_runtime (scenario_world\<lparr>secrets := [(''ops/db/prod'', ''{'host': 'h'}'')]\<rparr>)
                    ''ops'' ''db'' ''prod'' ''Ops'' ''db'' ''new''))
            ''Ops'' ''db'' ''new'')
       = Inl ResourceNotFoundException"
proof -
  have e: "py_eval scenario_runtime ''{'host': 'h'}'' = Inr (PDict [(''host'', PStr ''h'')])"
    by (simp add: scenario_runtime_def)
  have n: "''{'host': 'h'}'' \<noteq> '' ''" by simp
  show ?thesis using rename_to_uppercase_destination [OF e n, of scenario_world] by simp
qed

text \<open>
  C6. Every write path stamps the audit fields, and \<open>clear\<close> does not. After a
  successful \<open>add\<close> (\<open>update\<close>) the secret stored under the identifier is \<open>str\<close> of a
  payload whose \<open>last_modified_by\<close> is the user and whose \<open>last_modified_time\<close> is the
  clock reading taken by the call. In a successful \<open>rename\<close> the destination write
  (the backend call just before the final clear: a create under the lowercased
  identifier, or an update under the identifier as given) carries \<open>str\<close> of a payload
  stamped with the user and a clock reading taken during the rename. \<open>clear\<close>
  makes one backend call, an update with the sentinel \<open>' '\<close>, and does not read the
  clock.
\<close>

theorem write_paths_stamp_audit_fields:
  assumes a: "add rt wa account protocol name (PDict d) = (Inr (), pa, wa')"
      and u: "update rt wu account protocol name (PDict d) = (Inr (), pu, wu')"
      and r: "rename rt wr old_account old_protocol old_name account protocol name = (Inr (), wr')"
  shows "(map_of (secrets wa') (secret_id (lower account) (lower protocol) (lower name)) = Some (py_str rt pa)
            \<and> audited pa (self_user wa) (clock wa (ticks wa)))
       \<and> (map_of (secrets wu') (secret_id account protocol name) = Some (py_str rt pu)
            \<and> audited pu (self_user wu) (clock wu (ticks wu)))
       \<and> (\<exists>p t. (last (butlast (calls wr'))
                    = CreateSecret (secret_id (lower account) (lower protocol) (lower name)) (py_str rt p)
                  \<or> last (butlast (calls wr'))
                    = UpdateSecret (secret_id account protocol name) (py_str rt p))
                \<and> audited p (self_user wr) (clock wr t) \<and> ticks wr < t \<and> t < ticks wr')
       \<and> (calls (snd (clear wc account protocol name))
             = calls wc @ [UpdateSecret (secret_id account protocol name) '' '']
            \<and> ticks (snd (clear wc account protocol name)) = ticks wc)"
proof -
  have A: "map_of (secrets wa') (secret_id (lower account) (lower protocol) (lower name)) = Some (py_str rt pa)
            \<and> audited pa (self_user wa) (clock wa (ticks wa))"
    using a by (clarsimp simp: add_dict Let_def map_of_append_new audited_stamped_dict simp del: map_of_append split: if_splits)
  have U: "map_of (secrets wu') (secret_id account protocol name) = Some (py_str rt pu)
            \<and> audited pu (self_user wu) (clock wu (ticks wu))"
    using u by (clarsimp simp: update_dict Let_def map_of_replace_secret_mem audited_stamped_dict split: if_splits)
  have C: "calls (snd (clear wc account protocol name))
             = calls wc @ [UpdateSecret (secret_id account protocol name) '' '']
            \<and> ticks (snd (clear wc account protocol name)) = ticks wc"
    by (simp add: clear_eq Let_def)
  obtain s d0 where src: "map_of (secrets wr) (secret_id old_account old_protocol old_name) = Some s"
      and ne: "s \<noteq> '' ''" and ev: "py_eval rt s = Inr (PDict d0)"
      and diff: "any [old_account \<noteq> account, old_protocol \<noteq> protocol, old_name \<noteq> name]"
    using rename_success_source [OF r] by blast
  let ?u = "self_user wr" and ?t = "ticks wr"
  let ?d1 = "stamped_dict ?u (clock wr ?t) d0"
  let ?d2 = "stamped_dict ?u (clock wr (Suc ?t)) ?d1"
  let ?d3 = "stamped_dict ?u (clock wr (Suc (Suc ?t))) ?d2"
  let ?low = "secret_id (lower account) (lower protocol) (lower name)"
  have R: "\<exists>p t. (last (butlast (calls wr')) = CreateSecret ?low (py_str rt p)
                  \<or> last (butlast (calls wr')) = UpdateSecret (secret_id account protocol name) (py_str rt p))
                \<and> audited p (self_user wr) (clock wr t) \<and> ticks wr < t \<and> t < ticks wr'"
  proof (cases "?low \<in> fst ` set (secrets wr)")
    case False
    then have "last (butlast (calls wr')) = CreateSecret ?low (py_str rt (PDict ?d2))"
        and "ticks wr' = Suc (Suc ?t)"
      using r by (auto simp: rename_eq [OF src ne ev diff] Let_def butlast_append)
    then show ?thesis
      using audited_stamped_dict [of ?u "clock wr (Suc ?t)" ?d1] by (intro exI [of _ "PDict ?d2"] exI [of _ "Suc ?t"]) simp
  next
    case True
    then have "last (butlast (calls wr')) = UpdateSecret (secret_id account protocol name) (py_str rt (PDict ?d3))"
        and "ticks wr' = Suc (Suc (Suc ?t))"
      using r by (auto simp: rename_eq [OF src ne ev diff] Let_def butlast_append split: if_splits)
    then show ?thesis
      using audited_stamped_dict [of ?u "clock wr (Suc (Suc ?t))" ?d2]
      by (intro exI [of _ "PDict ?d3"] exI [of _ "Suc (Suc ?t)"]) simp
  qed
  from A U R C show ?thesis by blast
qed

theorem write_paths_stamp_audit_fields_witness:
  "fst (add scenario_runtime (scenario_world\<lparr>secrets := []\<rparr>) ''ops'' ''db'' ''prod'' (PDict [(''host'', PStr ''h'')])) = Inr ()
   \<and> audited (fst (snd (add scenario_runtime (scenario_world\<lparr>secrets := []\<rparr>) ''ops'' ''db'' ''prod''
                            (PDict [(''host'', PStr ''h'')]))))
        ''alice'' ''2024-01-01 10:00:00.000100''
   \<and> fst (update scenario_runtime scenario_world ''ops'' ''db'' ''prod'' (PDict [(''host'', PStr ''h'')])) = Inr ()
   \<and> audited (fst (snd (update scenario_runtime scenario_world ''ops'' ''db'' ''prod''
                            (PDict [(''host'', PStr ''h'')]))))
        ''alice'' ''2024-01-01 10:00:00.000100''
   \<and> fst (rename scenario_runtime scenario_world ''ops'' ''db'' ''old'' ''ops'' ''db'' ''prod'')
        = Inl (KeyError source_empty_message)
   \<and> fst (rename scenario_runtime (scenario_world\<lparr>secrets := [(''ops/db/src'', ''{'host': 'h'}'')]\<rparr>)
             ''ops'' ''db'' ''src'' ''ops'' ''db'' ''prod'') = Inr ()
   \<and> calls (snd (clear scenario_world ''ops'' ''db'' ''prod'')) = [UpdateSecret ''ops/db/prod'' '' '']"
proof -
  let ?d = "[(''host'', PStr ''h'')]"
  let ?wa = "scenario_world\<lparr>secrets := []\<rparr>"
  let ?wr = "scenario_world\<lparr>secrets := [(''ops/db/src'', ''{'host': 'h'}'')]\<rparr>"
  have a: "fst (add scenario_runtime ?wa ''ops'' ''db'' ''prod'' (PDict ?d)) = Inr ()"
    by (simp add: add_dict Let_def)
  have u: "fst (update scenario_runtime scenario_world ''ops'' ''db'' ''prod'' (PDict ?d)) = Inr ()"
    by (simp add: update_dict Let_def scenario_world_def secret_id_def)
  have src: "map_of (secrets ?wr) (secret_id ''ops'' ''db'' ''src'') = Some ''{'host': 'h'}''"
    by (simp add: secret_id_def)
  have ev: "py_eval scenario_runtime ''{'host': 'h'}'' = Inr (PDict ?d)"
    by (simp add: scenario_runtime_def)
  have diff: "any [''ops'' \<noteq> ''ops'', ''db'' \<noteq> ''db'', ''src'' \<noteq> ''prod'']" by simp
  have r: "fst (rename scenario_runtime ?wr ''ops'' ''db'' ''src'' ''ops'' ''db'' ''prod'') = Inr ()"
    by (simp add: rename_eq [OF src _ ev diff] Let_def secret_id_def lower_ops lower_db lower_prod)
  have e: "fst (rename scenario_runtime scenario_world ''ops'' ''db'' ''old'' ''ops'' ''db'' ''prod'')
        = Inl (KeyError source_empty_message)"
    by (simp add: rename_def get_secret_value_def log_call_def print_def scenario_world_def
        secret_id_def Let_def)
  have a': "add scenario_runtime ?wa ''ops'' ''db'' ''prod'' (PDict ?d)
        = (Inr (), fst (snd (add scenario_runtime ?wa ''ops'' ''db'' ''prod'' (PDict ?d))),
           snd (snd (add scenario_runtime ?wa ''ops'' ''db'' ''prod'' (PDict ?d))))"
    using a by (simp add: prod_eq_iff)
  have u': "update scenario_runtime scenario_world ''ops'' ''db'' ''prod'' (PDict ?d)
        = (Inr (), fst (snd (update scenario_runtime scenario_world ''ops'' ''db'' ''prod'' (PDict ?d))),
           snd (snd (update scenario_runtime scenario_world ''ops'' ''db'' ''prod'' (PDict ?d))))"
    using u by (simp add: prod_eq_iff)
  have r': "rename scenario_runtime ?wr ''ops'' ''db'' ''src'' ''ops'' ''db'' ''prod''
        = (Inr (), snd (rename scenario_runtime ?wr ''ops'' ''db'' ''src'' ''ops'' ''db'' ''prod''))"
    using r by (simp add: prod_eq_iff)
  have "audited (fst (snd (add scenario_runtime ?wa ''ops'' ''db'' ''prod'' (PDict ?d))))
          (self_user ?wa) (clock ?wa (ticks ?wa))"
   and "audited (fst (snd (update scenario_runtime scenario_world ''ops'' ''db'' ''prod'' (PDict ?d))))
          (self_user scenario_world) (clock scenario_world (ticks scenario_world))"
   and "calls (snd (clear scenario_world ''ops'' ''db'' ''prod''))
          = calls scenario_world @ [UpdateSecret (secret_id ''ops'' ''db'' ''prod'') '' '']"
    using write_paths_stamp_audit_fields [OF a' u' r', of scenario_world] by blast+
  then show ?thesis using a u r e
    by (simp add: scenario_world_def scenario_clock_def secret_id_def)
qed

text \<open>
  C7. The claim is that \<open>list_all\<close> returns the sorted identifiers for every backend
  state. Evaluated on a backend of two secrets that answers in one page:
  \<open>list_all\<close> raises \<open>KeyError('NextToken')\<close>.
\<close>

theorem list_all_two_secrets_raises:
  "fst (list_all_secrets (w\<lparr>secrets := [(''ops/db/prod'', s1), (''ops/db/test'', s2)], page_size := 100\<rparr>))
     = Inl (KeyError ''NextToken'')"
  by (simp add: list_all_secrets_def list_secrets_def log_call_def Let_def)

text \<open>
  C8. The claim is that \<open>search(owner='alice')\<close> selects the identifiers owned by
  \<open>alice\<close>. Evaluated on a backend holding \<open>alice/db/prod\<close> and \<open>bob/db/prod\<close> that
  answers in one page: \<open>search\<close> raises the \<open>KeyError('NextToken')\<close> of \<open>list_all\<close>
  and prints nothing; its one backend call is the listing.
\<close>

theorem search_owner_single_page_raises:
  "fst (search (w\<lparr>secrets := [(''alice/db/prod'', s1), (''bob/db/prod'', s2)], page_size := 100\<rparr>)
          (Some ''alice'') None None)
     = Inl (KeyError ''NextToken'')
   \<and> stdout (snd (search (w\<lparr>secrets := [(''alice/db/prod'', s1), (''bob/db/prod'', s2)], page_size := 100\<rparr>)
          (Some ''alice'') None None)) = stdout w
   \<and> calls (snd (search (w\<lparr>secrets := [(''alice/db/prod'', s1), (''bob/db/prod'', s2)], page_size := 100\<rparr>)
          (Some ''alice'') None None)) = calls w @ [ListSecrets None]"
  by (simp add: search_def list_all_secrets_def list_secrets_def log_call_def Let_def)

text \<open>
  C9, as stated, fails: with \<open>protocol = 'all'\<close> and \<open>name = 'prod'\<close> the lookup
  returns the full record, not a single named bundle (the specification's reading
  would index the record by \<open>'all'\<close>).
\<close>

theorem load_credentials_all_protocol_counterexample:
  "load_credentials scenario_runtime scenario_table ''ops'' ''all'' ''prod'' = Inr (Cred scenario_item)
   \<and> claimed_read_shape scenario_item ''all'' ''prod'' = Inl (KeyError ''all'')
   \<and> scenario_item \<noteq> PDict [(''host'', PStr ''h''), (''port'', PInt 5432)]"
  by (simp add: load_credentials_def select_cred_def coerce_port_def claimed_read_shape_def
      scenario_table_def scenario_item_def)

text \<open>
  C9, amended. For a stored record (a client other than \<open>'all'\<close> that the table
  holds) the lookup selects the full record whenever \<open>protocol\<close> is \<open>'all'\<close>, the
  protocol sub-mapping when \<open>protocol\<close> is given and \<open>name\<close> is \<open>'all'\<close>, and the named
  bundle when both are given. When the selection is a mapping without a \<open>port\<close>
  field it is returned as it is; with a \<open>port\<close> field that \<open>int\<close> accepts, it is
  returned with \<open>port\<close> replaced by that integer. When a selected key is missing,
  the selection is not a mapping, or \<open>int\<close> rejects the port, the lookup fails with
  the generic exception.
\<close>

theorem load_credentials_read_shape:
  assumes "client \<noteq> ''all''" and "map_of table client = Some item"
  shows "load_credentials rt table client protocol name =
           (case read_shape item protocol name of
              Inl e \<Rightarrow> Inl (Exception lookup_failed_message)
            | Inr (PStr s) \<Rightarrow> Inl (Exception lookup_failed_message)
            | Inr (PInt i) \<Rightarrow> Inl (Exception lookup_failed_message)
            | Inr (PDict d) \<Rightarrow>
                (case map_of d ''port'' of
                   None \<Rightarrow> Inr (Cred (PDict d))
                 | Some v \<Rightarrow>
                     (case py_int rt v of
                        Inl e \<Rightarrow> Inl (Exception lookup_failed_message)
                      | Inr i \<Rightarrow> Inr (Cred (PDict (dict_setitem d ''port'' (PInt i)))))))"
  using assms
  by (auto simp: load_credentials_def select_cred_def read_shape_def coerce_port_def
      split: option.splits sum.splits pyval.splits)

theorem load_credentials_read_shape_witness:
  "load_credentials scenario_runtime scenario_table ''ops'' ''db'' ''prod''
     = Inr (Cred (PDict [(''host'', PStr ''h''), (''port'', PInt 5432)]))
   \<and> load_credentials scenario_runtime scenario_table ''ops'' ''db'' ''all''
     = Inr (Cred (PDict [(''prod'', PDict [(''host'', PStr ''h''), (''port'', PStr ''5432'')])]))
   \<and> load_credentials scenario_runtime scenario_table ''ops'' ''all'' ''all'' = Inr (Cred scenario_item)
   \<and> load_credentials scenario_runtime scenario_table ''ops'' ''ftp'' ''all''
     = Inl (Exception lookup_failed_message)"
proof -
  have c: "''ops'' \<noteq> ''all''" by simp
  have t: "map_of scenario_table ''ops'' = Some scenario_item" by (simp add: scenario_table_def)
  show ?thesis
    using load_credentials_read_shape [OF c t, of scenario_runtime "''db''" "''prod''"]
      load_credentials_read_shape [OF c t, of scenario_runtime "''db''" "''all''"]
      load_credentials_read_shape [OF c t, of scenario_runtime "''all''" "''all''"]
      load_credentials_read_shape [OF c t, of scenario_runtime "''ftp''" "''all''"]
    by (simp add: read_shape_def scenario_item_def scenario_runtime_def)
qed

end
